theory Spec2Isabelle
  imports Main "HOL-Library.Word" "HOL-Library.AList"
begin

section \<open>The upload command of immich-go (cmdupload/upload.go)\<close>

text \<open>
  A shallow embedding of \<^verbatim>\<open>src/cmdupload/upload.go\<close>: the advice engine
  (\<^verbatim>\<open>ShouldUpload\<close>, \<^verbatim>\<open>compareDate\<close>), the per-file handler
  (\<^verbatim>\<open>handleAsset\<close>, \<^verbatim>\<open>UploadAsset\<close>, \<^verbatim>\<open>AddToAlbum\<close>) and the deferred phases of
  \<^verbatim>\<open>Run\<close> (stacks, \<^verbatim>\<open>ManageAlbums\<close>, \<^verbatim>\<open>DeleteServerAssets\<close>, \<^verbatim>\<open>DeleteLocalAssets\<close>).

  Mutation of the \<^verbatim>\<open>UpCmd\<close> receiver is explicit state passing. Every call that leaves
  the process (a method of \<^verbatim>\<open>iClient\<close>, the removal or closing of a local file) is appended
  to a trace, and its answer is read from an environment record, as a function of the trace
  so far and of the request.
\<close>

subsection \<open>Data\<close>

text \<open>
  \<^verbatim>\<open>time.Time\<close> is the number of nanoseconds since the zero time (so \<^verbatim>\<open>IsZero\<close> is \<open>= 0\<close>);
  \<^verbatim>\<open>time.Duration\<close> is a signed 64-bit count of nanoseconds. Go's \<^verbatim>\<open>int\<close> is 64 bits wide
  on the supported platforms; it is a word where the code subtracts (file sizes).
\<close>

type_synonym time = int
type_synonym Duration = int
type_synonym goint = "64 word"

text \<open>
  Go errors: a message, a message wrapping another error (\<^verbatim>\<open>fmt.Errorf\<close> with \<^verbatim>\<open>%w\<close>), the
  error of a cancelled context, and the run-time panic of a nil dereference.
\<close>

datatype error = errorString string | wrapError string error | Canceled | Panic

datatype AdviceCode = IDontKnow | SmallerOnServer | BetterOnServer | SameOnServer | NotOnServer

record LocalAlbum =
  Path :: string
  Name :: string

record AlbumSimplified =
  album_ID :: string
  AlbumName :: string

text \<open>\<^verbatim>\<open>immich.Asset\<close>, with the two fields of \<^verbatim>\<open>ExifInfo\<close> that the command reads.\<close>

record Asset =
  ID :: string
  DeviceAssetID :: string
  OriginalFileName :: string
  DateTimeOriginal :: time
  FileSizeInByte :: goint
  asset_Albums :: "AlbumSimplified list"
  JustUploaded :: bool

record SideCar =
  sc_FileName :: string
  sc_DateTaken :: time

text \<open>
  \<^verbatim>\<open>browser.LocalAssetFile\<close>; \<open>Size\<close> is what \<^verbatim>\<open>Size()\<close> returns. The GPS fields are
  floating-point numbers that are only copied into the sidecar and are left out.
\<close>

record LocalAssetFile =
  FileName :: string
  Title :: string
  Albums :: "LocalAlbum list"
  Err :: "error option"
  DateTaken :: time
  Trashed :: bool
  FromPartner :: bool
  Size :: goint
  SideCar :: "SideCar option"

record AssetResponse =
  resp_ID :: string
  Duplicate :: bool

record UpdateAlbumResult =
  result_ID :: string
  Success :: bool
  result_Error :: string

text \<open>\<^verbatim>\<open>stacking.Stack\<close>, as \<^verbatim>\<open>Run\<close> reads it.\<close>

record Stack =
  CoverID :: string
  IDs :: "string list"
  Names :: "string list"

text \<open>\<^verbatim>\<open>immich.DateRange\<close>, given by what its two methods return.\<close>

record DateRange =
  IsSet :: bool
  InRange :: "time \<Rightarrow> bool"

record Advice =
  Advice :: AdviceCode
  Message :: string
  ServerAsset :: "Asset option"
  LocalAsset :: "LocalAssetFile option"

text \<open>
  The calls that leave the process: the mutating and listing methods of \<^verbatim>\<open>iClient\<close>, and
  \<^verbatim>\<open>Remove\<close> and \<^verbatim>\<open>Close\<close> of a local file.
\<close>

datatype effect =
    AssetUpload LocalAssetFile
  | DeleteAssets "string list" bool
  | GetAllAlbums
  | AddAssetToAlbum string "string list"
  | CreateAlbum string "string list"
  | UpdateAssets "string list" bool bool bool string
  | Remove LocalAssetFile
  | Close LocalAssetFile

datatype level = Info | OK | Warning | Error

text \<open>
  Modelled from the spec: the type \<^verbatim>\<open>AssetIndex\<close> and its methods \<^verbatim>\<open>ByID\<close>, \<^verbatim>\<open>ByName\<close> and
  \<^verbatim>\<open>AddLocalAsset\<close> are not in \<^verbatim>\<open>upload.go\<close>. The spec (4.1) gives the index two lookup
  structures, identifier to remote asset and display name to the list of remote assets
  sharing that name, and one mutator that inserts an entry synthesised from the local file
  and marks it just-created.
\<close>

record AssetIndex =
  assets :: "Asset list"
  byID :: "string \<rightharpoonup> Asset"
  byName :: "string \<rightharpoonup> Asset list"

text \<open>
  Modelled from the spec: \<^verbatim>\<open>AssetIndex.ByID\<close> is not in \<^verbatim>\<open>upload.go\<close>. It looks the
  identifier up and returns the remote asset, or \<^verbatim>\<open>nil\<close> (spec 4.1, 4.2).
\<close>

definition ByID :: "AssetIndex \<Rightarrow> string \<Rightarrow> Asset option" where
  "ByID ai i = byID ai i"

text \<open>
  Modelled from the spec: \<^verbatim>\<open>AssetIndex.ByName\<close> is not in \<^verbatim>\<open>upload.go\<close>. It returns the
  list of the remote assets that share the name, in the order of the index (spec 4.1, 4.2).
\<close>

definition ByName :: "AssetIndex \<Rightarrow> string \<Rightarrow> Asset list" where
  "ByName ai n = (case byName ai n of None \<Rightarrow> [] | Some l \<Rightarrow> l)"

text \<open>
  What the command takes from its collaborators, none of which is in \<^verbatim>\<open>upload.go\<close>:
  the methods of the local file and of the helper packages, the iteration order of Go maps,
  and the answers of the server and of the file system.
\<close>

record env =
  LocalDeviceAssetID :: "LocalAssetFile \<Rightarrow> string"
  MimeFromExt :: "string \<Rightarrow> bool"
  Dir :: "string \<Rightarrow> string"
  indexName :: "LocalAssetFile \<Rightarrow> string"
  NewString :: "nat \<Rightarrow> string"
  Stacks :: "(string \<times> string \<times> time) list \<Rightarrow> Stack list"
  rangeAlbums :: "(string \<times> string list) list \<Rightarrow> (string \<times> string list) list"
  keys :: "string list \<Rightarrow> string list"
  AllStops :: bool
  AssetUpload_ret :: "effect list \<Rightarrow> LocalAssetFile \<Rightarrow> error + AssetResponse"
  DeleteAssets_ret :: "effect list \<Rightarrow> string list \<Rightarrow> error option"
  GetAllAlbums_ret :: "effect list \<Rightarrow> error + AlbumSimplified list"
  AddAssetToAlbum_ret :: "effect list \<Rightarrow> string \<Rightarrow> string list \<Rightarrow> error + UpdateAlbumResult list"
  CreateAlbum_ret :: "effect list \<Rightarrow> string \<Rightarrow> string list \<Rightarrow> error option"
  UpdateAssets_ret :: "effect list \<Rightarrow> string list \<Rightarrow> string \<Rightarrow> error option"
  Remove_ret :: "effect list \<Rightarrow> LocalAssetFile \<Rightarrow> error option"

subsection \<open>Paths (Go's \<^verbatim>\<open>path\<close> package)\<close>

text \<open>
  \<^verbatim>\<open>path.Ext\<close> scans from the end of the string and stops at a slash; it returns the suffix
  that starts at the last dot of the last element.
\<close>

fun Ext_scan :: "string \<Rightarrow> string \<Rightarrow> string" where
  "Ext_scan [] acc = ''''"
| "Ext_scan (c # cs) acc =
     (if c = CHR ''/'' then ''''
      else if c = CHR ''.'' then c # acc
      else Ext_scan cs (c # acc))"

definition Ext :: "string \<Rightarrow> string" where
  "Ext p = Ext_scan (rev p) []"

text \<open>
  \<^verbatim>\<open>path.Base\<close>; \<^verbatim>\<open>filepath.Base\<close> is the same function where the separator is a slash.
\<close>

definition Base :: "string \<Rightarrow> string" where
  "Base p =
     (if p = [] then ''.''
      else let p1 = rev (dropWhile (\<lambda>c. c = CHR ''/'') (rev p));
               p2 = rev (takeWhile (\<lambda>c. c \<noteq> CHR ''/'') (rev p1))
           in if p2 = [] then ''/'' else p2)"

subsection \<open>The advice engine\<close>

definition Minute :: Duration where
  "Minute = 60 * 1000000000"

definition minDuration :: Duration where
  "minDuration = - (2 ^ 63)"

definition maxDuration :: Duration where
  "maxDuration = 2 ^ 63 - 1"

text \<open>
  \<^verbatim>\<open>Time.Sub\<close> saturates at the least and the greatest duration. Capture times come from
  metadata and carry no monotonic clock reading, so the difference is that of the instants.
\<close>

definition Sub :: "time \<Rightarrow> time \<Rightarrow> Duration" where
  "Sub d1 d2 =
     (if d1 - d2 < minDuration then minDuration
      else if d1 - d2 > maxDuration then maxDuration
      else d1 - d2)"

definition compareDate :: "time \<Rightarrow> time \<Rightarrow> int" where
  "compareDate d1 d2 =
     (let diff = Sub d1 d2
      in if diff < - 5 * Minute then - 1
         else if diff \<ge> 5 * Minute then 1
         else 0)"

text \<open>
  The advice constructors. \<open>Message\<close> holds the format string; the rendering of its
  arguments (\<^verbatim>\<open>formatBytes\<close> works on floating-point numbers) is presentation and is not
  modelled.
\<close>

definition adviceIDontKnow :: "LocalAssetFile \<Rightarrow> Advice" where
  "adviceIDontKnow la =
     \<lparr>Advice = IDontKnow,
      Message = ''Can't decide what to do with %q. Check this vile yourself'',
      ServerAsset = None, LocalAsset = Some la\<rparr>"

definition adviceSameOnServer :: "Asset \<Rightarrow> Advice" where
  "adviceSameOnServer sa =
     \<lparr>Advice = SameOnServer,
      Message = ''An asset with the same name:%q, date:%q and size:%s exists on the server. No need to upload.'',
      ServerAsset = Some sa, LocalAsset = None\<rparr>"

definition adviceSmallerOnServer :: "Asset \<Rightarrow> Advice" where
  "adviceSmallerOnServer sa =
     \<lparr>Advice = SmallerOnServer,
      Message = ''An asset with the same name:%q and date:%q but with smaller size:%s exists on the server. Replace it.'',
      ServerAsset = Some sa, LocalAsset = None\<rparr>"

definition adviceBetterOnServer :: "Asset \<Rightarrow> Advice" where
  "adviceBetterOnServer sa =
     \<lparr>Advice = BetterOnServer,
      Message = ''An asset with the same name:%q and date:%q but with bigger size:%s exists on the server. No need to upload.'',
      ServerAsset = Some sa, LocalAsset = None\<rparr>"

definition adviceNotOnServer :: Advice where
  "adviceNotOnServer =
     \<lparr>Advice = NotOnServer, Message = ''This a new asset, upload it.'',
      ServerAsset = None, LocalAsset = None\<rparr>"

text \<open>
  The loop of \<^verbatim>\<open>ShouldUpload\<close> over the assets of the same name. The difference of the two
  sizes is computed on 64-bit integers, where it wraps, and its sign is read as a signed
  number. A candidate for which no case of the \<^verbatim>\<open>switch\<close> holds is passed over.
\<close>

fun ShouldUpload_loop :: "time \<Rightarrow> goint \<Rightarrow> Asset list \<Rightarrow> Advice option" where
  "ShouldUpload_loop dateTaken sz [] = None"
| "ShouldUpload_loop dateTaken sz (sa # l) =
     (let cmpDate = compareDate dateTaken (DateTimeOriginal sa);
          compareSize = sz - FileSizeInByte sa
      in if cmpDate = 0 \<and> sint compareSize = 0 then Some (adviceSameOnServer sa)
         else if cmpDate = 0 \<and> sint compareSize > 0 then Some (adviceSmallerOnServer sa)
         else if cmpDate = 0 \<and> sint compareSize < 0 then Some (adviceBetterOnServer sa)
         else ShouldUpload_loop dateTaken sz l)"

text \<open>
  \<^verbatim>\<open>ShouldUpload\<close> returns a pointer to an advice and an error; \<open>None\<close> is \<^verbatim>\<open>nil\<close> in both
  components.
\<close>

definition ShouldUpload :: "env \<Rightarrow> AssetIndex \<Rightarrow> LocalAssetFile \<Rightarrow> Advice option \<times> error option" where
  "ShouldUpload e ai la =
     (let filename = (if Ext (Title la) = '''' then Title la @ Ext (FileName la) else Title la);
          i = LocalDeviceAssetID e la
      in case ByID ai i of
           Some sa \<Rightarrow> (Some (adviceSameOnServer sa), None)
         | None \<Rightarrow>
             (let n = Base filename;
                  l = ByName ai n
              in if length l > 0
                 then (case ShouldUpload_loop (DateTaken la) (Size la) l of
                         Some adv \<Rightarrow> (Some adv, None)
                       | None \<Rightarrow> (Some adviceNotOnServer, None))
                 else (Some adviceNotOnServer, None)))"

subsection \<open>The command and its state\<close>

text \<open>
  \<^verbatim>\<open>UpCmd\<close>, with the fields that the modelled functions read or write. The map
  \<^verbatim>\<open>updateAlbums\<close> is an association list from album names to the identifiers added to
  them (the keys of the inner map). \<open>log\<close> is what has been handed to the logger, as pairs
  of a level and a format string (debug output is left out); \<open>effects\<close> is the trace of the
  calls that left the process; \<open>uuids\<close> counts the calls of \<^verbatim>\<open>uuid.NewString\<close>.
\<close>

record UpCmd =
  GooglePhotos :: bool
  Delete :: bool
  CreateAlbumAfterFolder :: bool
  ImportIntoAlbum :: string
  PartnerAlbum :: string
  DateRange :: DateRange
  ImportFromAlbum :: string
  CreateAlbums :: bool
  KeepTrashed :: bool
  KeepPartner :: bool
  KeepUntitled :: bool
  UseFolderAsAlbumName :: bool
  DryRun :: bool
  ForceSidecar :: bool
  CreateStacks :: bool
  AssetIndex :: AssetIndex
  deleteServerList :: "Asset list"
  deleteLocalList :: "LocalAssetFile list"
  mediaUploaded :: int
  mediaCount :: int
  stacks :: "(string \<times> string \<times> time) list"
  updateAlbums :: "(string \<times> string list) list"
  log :: "(level \<times> string) list"
  effects :: "effect list"
  uuids :: nat

definition logf :: "level \<Rightarrow> string \<Rightarrow> UpCmd \<Rightarrow> UpCmd" where
  "logf lv msg app = app\<lparr>log := log app @ [(lv, msg)]\<rparr>"

definition perform :: "effect \<Rightarrow> UpCmd \<Rightarrow> UpCmd" where
  "perform x app = app\<lparr>effects := effects app @ [x]\<rparr>"

text \<open>
  Modelled from the spec: \<^verbatim>\<open>AssetIndex.AddLocalAsset\<close> is not in \<^verbatim>\<open>upload.go\<close>. It inserts
  an entry synthesised from the local file under the new identifier and marks it
  just-created (spec 4.1), so that a later file of the same run finds it by its device-scoped
  identifier or by its name.
\<close>

definition AddLocalAsset :: "env \<Rightarrow> AssetIndex \<Rightarrow> LocalAssetFile \<Rightarrow> string \<Rightarrow> AssetIndex" where
  "AddLocalAsset e ai la immichID =
     (let sa = \<lparr>ID = immichID, DeviceAssetID = LocalDeviceAssetID e la,
                OriginalFileName = indexName e la, DateTimeOriginal = DateTaken la,
                FileSizeInByte = Size la, asset_Albums = [], JustUploaded = True\<rparr>
      in ai\<lparr>assets := assets ai @ [sa],
            byID := (byID ai)(DeviceAssetID sa \<mapsto> sa),
            byName := (byName ai)(OriginalFileName sa \<mapsto> ByName ai (OriginalFileName sa) @ [sa])\<rparr>)"

text \<open>
  Modelled from the spec: \<^verbatim>\<open>LocalAssetFile.AddAlbum\<close> is not in \<^verbatim>\<open>upload.go\<close>. It copies an
  album membership onto the album hints of the local file (spec 4.2).
\<close>

definition AddAlbum :: "LocalAlbum \<Rightarrow> LocalAssetFile \<Rightarrow> LocalAssetFile" where
  "AddAlbum al a = (if al \<in> set (Albums a) then a else a\<lparr>Albums := Albums a @ [al]\<rparr>)"

text \<open>
  Modelled from the spec: \<^verbatim>\<open>StackBuilder.ProcessAsset\<close> is not in \<^verbatim>\<open>upload.go\<close>. The builder
  is an ordered queue of triples of identifier, file name and capture time (spec 3); the
  grouping of \<^verbatim>\<open>Stacks()\<close> is the field \<open>Stacks\<close> of the environment.
\<close>

definition ProcessAsset :: "string \<Rightarrow> string \<Rightarrow> time \<Rightarrow> UpCmd \<Rightarrow> UpCmd" where
  "ProcessAsset i n d app = app\<lparr>stacks := stacks app @ [(i, n, d)]\<rparr>"

text \<open>
  Modelled from the spec: \<^verbatim>\<open>xsync.List\<close> is not in \<^verbatim>\<open>upload.go\<close>. It is an append-only
  collection (spec 3, 4.6): \<^verbatim>\<open>Push\<close> appends, \<^verbatim>\<open>Len\<close> is the length, and \<^verbatim>\<open>All\<close> calls a
  function on each element in turn. The function returns a boolean; whether \<^verbatim>\<open>All\<close> ends the
  iteration when it is false is the first argument (the field \<open>AllStops\<close> of the
  environment). The state \<open>'s\<close> stands for the variables that the closure captures.
\<close>

fun All_list :: "bool \<Rightarrow> ('a \<Rightarrow> 's \<Rightarrow> bool \<times> 's) \<Rightarrow> 'a list \<Rightarrow> 's \<Rightarrow> 's" where
  "All_list stops f [] s = s"
| "All_list stops f (x # xs) s =
     (case f x s of
        (continue, s') \<Rightarrow> if continue \<or> \<not> stops then All_list stops f xs s' else s')"

definition albumName :: "UpCmd \<Rightarrow> LocalAlbum \<Rightarrow> string" where
  "albumName app al =
     (if GooglePhotos app
      then (if UseFolderAsAlbumName app then Path al
            else if KeepUntitled app \<and> Name al = '''' then Path al
            else Name al)
      else Name al)"

definition isInAlbum :: "UpCmd \<Rightarrow> LocalAssetFile \<Rightarrow> string \<Rightarrow> bool" where
  "isInAlbum app a album = list_ex (\<lambda>al. albumName app al = album) (Albums a)"

definition AddToAlbum :: "string \<Rightarrow> string \<Rightarrow> UpCmd \<Rightarrow> UpCmd" where
  "AddToAlbum i album app =
     (let l = (case map_of (updateAlbums app) album of None \<Rightarrow> [] | Some l \<Rightarrow> l);
          l' = (if i \<in> set l then l else l @ [i])
      in app\<lparr>updateAlbums := AList.update album l' (updateAlbums app)\<rparr>)"

subsection \<open>Uploading one file\<close>

text \<open>The albums that \<^verbatim>\<open>UploadAsset\<close> collects for an uploaded file.\<close>

definition UploadAsset_albums :: "env \<Rightarrow> UpCmd \<Rightarrow> LocalAssetFile \<Rightarrow> LocalAlbum list" where
  "UploadAsset_albums e app a =
     (if ImportIntoAlbum app \<noteq> ''''
      then [\<lparr>Path = ImportIntoAlbum app, Name = ImportIntoAlbum app\<rparr>]
      else if GooglePhotos app
      then Albums a @
           (if PartnerAlbum app \<noteq> '''' \<and> FromPartner a
            then [\<lparr>Path = PartnerAlbum app, Name = PartnerAlbum app\<rparr>] else [])
      else if \<not> GooglePhotos app \<and> CreateAlbumAfterFolder app
      then (let album = Base (Dir e (FileName a))
            in if album \<noteq> '''' \<and> album \<noteq> ''.'' then [\<lparr>Path = album, Name = album\<rparr>] else [])
      else [])"

text \<open>
  The last part of \<^verbatim>\<open>UploadAsset\<close>: the uploaded file, known to the server as \<open>i\<close>, is
  added to the albums collected for it.
\<close>

definition UploadAsset_addToAlbums :: "env \<Rightarrow> UpCmd \<Rightarrow> LocalAssetFile \<Rightarrow> string \<Rightarrow> UpCmd" where
  "UploadAsset_addToAlbums e app a i =
     (if ImportIntoAlbum app \<noteq> '''' \<or>
         (GooglePhotos app \<and> (CreateAlbums app \<or> PartnerAlbum app \<noteq> '''')) \<or>
         (\<not> GooglePhotos app \<and> CreateAlbumAfterFolder app)
      then
        let albums = UploadAsset_albums e app a;
            names = filter (\<lambda>name. \<not> (GooglePhotos app \<and> name = ''''))
                      (map (albumName app) albums)
        in if length albums > 0 \<and> length names > 0
           then fold (\<lambda>n s. AddToAlbum i n (logf OK '' %s'' s)) names
                  (logf OK '' added in albums(s) %s'' app)
           else app
      else app)"

text \<open>
  The part of \<^verbatim>\<open>UploadAsset\<close> after the response is known: a duplicate ends it; otherwise
  the file enters the index, the counter, the stack builder and the album accumulator.
\<close>

definition UploadAsset_response :: "env \<Rightarrow> UpCmd \<Rightarrow> LocalAssetFile \<Rightarrow> AssetResponse \<Rightarrow> UpCmd" where
  "UploadAsset_response e app a resp =
     (if Duplicate resp then logf Warning ''already exists on the server'' app
      else
        let app1 = app\<lparr>AssetIndex := AddLocalAsset e (AssetIndex app) a (resp_ID resp),
                       mediaUploaded := mediaUploaded app + 1\<rparr>;
            app2 = (if \<not> DryRun app1 then logf OK ''Done, total %d uploaded'' app1
                    else logf OK ''Skipped - dry run mode, total %d uploaded'' app1);
            app3 = (if CreateStacks app2
                    then ProcessAsset (resp_ID resp) (FileName a) (DateTaken a) app2 else app2)
        in logf OK [] (UploadAsset_addToAlbums e app3 a (resp_ID resp)))"

text \<open>
  \<^verbatim>\<open>UploadAsset\<close> has no result: the caller does not learn whether the upload failed. The
  model returns the state and the local file (the sidecar is attached to it).
\<close>

definition UploadAsset :: "env \<Rightarrow> UpCmd \<Rightarrow> LocalAssetFile \<Rightarrow> UpCmd \<times> LocalAssetFile" where
  "UploadAsset e app a =
     (let app1 = logf OK ''Uploading %q...'' app
      in if \<not> DryRun app1
         then
           let a1 = (if ForceSidecar app1
                     then a\<lparr>SideCar := Some \<lparr>sc_FileName = FileName a @ ''.xmp'',
                                               sc_DateTaken = DateTaken a\<rparr>\<rparr>
                     else a);
               r = AssetUpload_ret e (effects app1) a1;
               app2 = perform (AssetUpload a1) app1
           in (case r of
                 Inl err \<Rightarrow> (logf Error ''Error: %s'' app2, a1)
               | Inr resp \<Rightarrow> (UploadAsset_response e app2 a1 resp, a1))
         else
           (UploadAsset_response e (app1\<lparr>uuids := uuids app1 + 1\<rparr>) a
              \<lparr>resp_ID = NewString e (uuids app1), Duplicate = False\<rparr>, a))"

subsection \<open>Handling one file\<close>

text \<open>
  The three places of \<^verbatim>\<open>handleAsset\<close> that add the server asset to the albums determined
  locally.
\<close>

definition addToLocalAlbums :: "string \<Rightarrow> LocalAssetFile \<Rightarrow> UpCmd \<Rightarrow> UpCmd" where
  "addToLocalAlbums i a app =
     (if CreateAlbums app
      then fold (\<lambda>al s. AddToAlbum i (albumName s al) s) (Albums a) app
      else app)"

definition addToPartnerAlbum :: "string \<Rightarrow> LocalAssetFile \<Rightarrow> UpCmd \<Rightarrow> UpCmd" where
  "addToPartnerAlbum i a app =
     (if PartnerAlbum app \<noteq> '''' \<and> FromPartner a then AddToAlbum i (PartnerAlbum app) app
      else app)"

definition pushLocal :: "LocalAssetFile \<Rightarrow> UpCmd \<Rightarrow> UpCmd" where
  "pushLocal a app =
     (if Delete app then app\<lparr>deleteLocalList := deleteLocalList app @ [a]\<rparr> else app)"

text \<open>
  The \<^verbatim>\<open>switch\<close> of \<^verbatim>\<open>handleAsset\<close> on the advice. The result is the error, the value of
  \<^verbatim>\<open>showCount\<close> at the return, the state and the local file. Where the code dereferences
  \<^verbatim>\<open>advice.ServerAsset\<close> and the pointer is \<^verbatim>\<open>nil\<close>, the model returns \<open>Panic\<close>.
\<close>

definition handleAsset_switch ::
  "env \<Rightarrow> UpCmd \<Rightarrow> LocalAssetFile \<Rightarrow> Advice \<Rightarrow> error option \<times> bool \<times> UpCmd \<times> LocalAssetFile" where
  "handleAsset_switch e app a advice =
     (case Advice advice of
        NotOnServer \<Rightarrow>
          (case UploadAsset e (logf Info ''%s: %s'' app) a of
             (app1, a1) \<Rightarrow> (None, False, pushLocal a1 app1, a1))
      | SmallerOnServer \<Rightarrow>
          (case ServerAsset advice of
             None \<Rightarrow> (Some Panic, True, logf Info ''%s: %s'' app, a)
           | Some sa \<Rightarrow>
               let a1 = fold (\<lambda>al la. AddAlbum \<lparr>Path = '''', Name = AlbumName al\<rparr> la)
                          (asset_Albums sa) a
               in (case UploadAsset e (logf Info ''%s: %s'' app) a1 of
                     (app1, a2) \<Rightarrow>
                       (None, False,
                        pushLocal a2 (app1\<lparr>deleteServerList := deleteServerList app1 @ [sa]\<rparr>),
                        a2)))
      | SameOnServer \<Rightarrow>
          (case ServerAsset advice of
             None \<Rightarrow> (Some Panic, True, app, a)
           | Some sa \<Rightarrow>
               let app1 = addToLocalAlbums (ID sa) a app;
                   app2 = (if ImportIntoAlbum app1 \<noteq> ''''
                           then AddToAlbum (ID sa) (ImportIntoAlbum app1) app1 else app1);
                   app3 = addToPartnerAlbum (ID sa) a app2
               in if \<not> JustUploaded sa
                  then (None, False, pushLocal a (logf Info ''%s: %s'' app3), a)
                  else (None, True, app3, a))
      | BetterOnServer \<Rightarrow>
          (case ServerAsset advice of
             None \<Rightarrow>
               (if (CreateAlbums app \<and> Albums a \<noteq> []) \<or> (PartnerAlbum app \<noteq> '''' \<and> FromPartner a)
                then (Some Panic, True, app, a)
                else (None, False, app, a))
           | Some sa \<Rightarrow>
               (None, False, addToPartnerAlbum (ID sa) a (addToLocalAlbums (ID sa) a app), a))
      | IDontKnow \<Rightarrow> (None, False, app, a))"

text \<open>
  The body of \<^verbatim>\<open>handleAsset\<close> up to its return; the deferred function is in
  \<open>handleAsset\<close> below.
\<close>

definition handleAsset_body ::
  "env \<Rightarrow> UpCmd \<Rightarrow> LocalAssetFile \<Rightarrow> error option \<times> bool \<times> UpCmd \<times> LocalAssetFile" where
  "handleAsset_body e app0 a0 =
     (let app = app0\<lparr>mediaCount := mediaCount app0 + 1\<rparr>
      in if \<not> MimeFromExt e (Ext (FileName a0)) then (None, True, app, a0)
         else if \<not> KeepPartner app \<and> FromPartner a0 then (None, True, app, a0)
         else if \<not> KeepTrashed app \<and> Trashed a0 then (None, True, app, a0)
         else if length (ImportFromAlbum app) > 0 \<and> \<not> isInAlbum app a0 (ImportFromAlbum app)
         then (None, True, app, a0)
         else if IsSet (DateRange app) \<and> DateTaken a0 = 0
         then (None, True,
               logf Error ''Can't get capture date of the file. File %q skipped'' app, a0)
         else if IsSet (DateRange app) \<and> \<not> InRange (DateRange app) (DateTaken a0)
         then (None, True, app, a0)
         else
           let a = (if \<not> KeepUntitled app
                    then a0\<lparr>Albums := filter (\<lambda>i. Name i \<noteq> '''') (Albums a0)\<rparr> else a0)
           in (case ShouldUpload e (AssetIndex app) a of
                 (_, Some err) \<Rightarrow> (Some err, True, app, a)
               | (None, None) \<Rightarrow> (Some Panic, True, app, a)
               | (Some advice, None) \<Rightarrow> handleAsset_switch e app a advice))"

definition handleAsset :: "env \<Rightarrow> UpCmd \<Rightarrow> LocalAssetFile \<Rightarrow> error option \<times> UpCmd" where
  "handleAsset e app a =
     (case handleAsset_body e app a of
        (err, showCount, app1, a1) \<Rightarrow>
          let app2 = perform (Close a1) app1
          in (err, if showCount then logf Info ''%d media scanned...'' app2 else app2))"

subsection \<open>Album reconciliation\<close>

text \<open>
  The inner loop of \<^verbatim>\<open>ManageAlbums\<close> over the albums of the server, for one accumulated
  album. The result is the error that ends \<^verbatim>\<open>ManageAlbums\<close>, the flag \<^verbatim>\<open>found\<close> and the state.
\<close>

definition logResults :: "UpdateAlbumResult list \<Rightarrow> UpCmd \<Rightarrow> UpCmd" where
  "logResults rr app =
     (let app1 = fold (\<lambda>r s. if \<not> Success r \<and> result_Error r \<noteq> ''duplicate''
                              then logf Warning ''%s: %s'' s else s) rr app
      in if length (filter Success rr) > 0
         then logf OK ''%d asset(s) added to the album %q'' app1 else app1)"

fun ManageAlbums_server ::
  "env \<Rightarrow> string \<Rightarrow> string list \<Rightarrow> AlbumSimplified list \<Rightarrow> bool \<Rightarrow> UpCmd
   \<Rightarrow> error option \<times> bool \<times> UpCmd" where
  "ManageAlbums_server e album l [] found app = (None, found, app)"
| "ManageAlbums_server e album l (sal # sals) found app =
     (if AlbumName sal = album
      then
        (if \<not> DryRun app
         then
           let app1 = logf OK ''Update the album %s'' app;
               r = AddAssetToAlbum_ret e (effects app1) (album_ID sal) (keys e l);
               app2 = perform (AddAssetToAlbum (album_ID sal) (keys e l)) app1
           in (case r of
                 Inl err \<Rightarrow>
                   (Some (wrapError ''can't update the album list from the server'' err), True, app2)
               | Inr rr \<Rightarrow> ManageAlbums_server e album l sals True (logResults rr app2))
         else ManageAlbums_server e album l sals True
                (logf OK ''Update album %s skipped - dry run mode'' app))
      else ManageAlbums_server e album l sals found app)"

text \<open>
  The outer loop, over the accumulated albums in the order in which the \<^verbatim>\<open>range\<close> over the
  map yields them. The inner map is never \<^verbatim>\<open>nil\<close> (\<^verbatim>\<open>AddToAlbum\<close> is the only writer), so the
  test \<^verbatim>\<open>list != nil\<close> is true.
\<close>

fun ManageAlbums_loop ::
  "env \<Rightarrow> AlbumSimplified list \<Rightarrow> (string \<times> string list) list \<Rightarrow> UpCmd \<Rightarrow> error option \<times> UpCmd" where
  "ManageAlbums_loop e serverAlbums [] app = (None, app)"
| "ManageAlbums_loop e serverAlbums ((album, l) # rest) app =
     (case ManageAlbums_server e album l serverAlbums False app of
        (Some err, found, app1) \<Rightarrow> (Some err, app1)
      | (None, found, app1) \<Rightarrow>
          if found then ManageAlbums_loop e serverAlbums rest app1
          else if \<not> DryRun app1
          then
            let app2 = logf OK ''Create the album %s'' app1;
                r = CreateAlbum_ret e (effects app2) album (keys e l);
                app3 = perform (CreateAlbum album (keys e l)) app2
            in (case r of
                  Some err \<Rightarrow>
                    (Some (wrapError ''can't create the album list from the server'' err), app3)
                | None \<Rightarrow> ManageAlbums_loop e serverAlbums rest app3)
          else ManageAlbums_loop e serverAlbums rest
                 (logf OK ''Create the album %s skipped - dry run mode'' app1))"

definition ManageAlbums :: "env \<Rightarrow> UpCmd \<Rightarrow> error option \<times> UpCmd" where
  "ManageAlbums e app =
     (if length (updateAlbums app) = 0 then (None, app)
      else
        let r = GetAllAlbums_ret e (effects app);
            app1 = perform GetAllAlbums app
        in (case r of
              Inl err \<Rightarrow> (Some (wrapError ''can't get the album list from the server'' err), app1)
            | Inr serverAlbums \<Rightarrow>
                ManageAlbums_loop e serverAlbums (rangeAlbums e (updateAlbums app1)) app1))"

subsection \<open>Deletions\<close>

text \<open>
  The closure that \<^verbatim>\<open>DeleteLocalAssets\<close> hands to \<^verbatim>\<open>All\<close>; it captures the named result
  \<^verbatim>\<open>err\<close> and the command.
\<close>

definition DeleteLocalAssets_func ::
  "env \<Rightarrow> LocalAssetFile \<Rightarrow> error option \<times> UpCmd \<Rightarrow> bool \<times> error option \<times> UpCmd" where
  "DeleteLocalAssets_func e a s =
     (case s of
        (err, app) \<Rightarrow>
          if DryRun app then (True, err, logf Warning ''file %q not deleted, dry run mode'' app)
          else
            let app1 = logf Warning ''delete file %q'' app;
                r = Remove_ret e (effects app1) a
            in (r = None, r, perform (Remove a) app1))"

definition DeleteLocalAssets :: "env \<Rightarrow> UpCmd \<Rightarrow> error option \<times> UpCmd" where
  "DeleteLocalAssets e app =
     All_list (AllStops e) (DeleteLocalAssets_func e) (deleteLocalList app)
       (None, logf OK ''%d local assets to delete.'' app)"

definition DeleteServerAssets :: "env \<Rightarrow> UpCmd \<Rightarrow> string list \<Rightarrow> error option \<times> UpCmd" where
  "DeleteServerAssets e app ids =
     (let app1 = logf Warning ''%d server assets to delete.'' app
      in if \<not> DryRun app1
         then (DeleteAssets_ret e (effects app1) ids, perform (DeleteAssets ids False) app1)
         else (None, logf Warning ''%d server assets to delete. skipped dry-run mode'' app1))"

subsection \<open>The run\<close>

text \<open>The text of an error (\<^verbatim>\<open>err.Error()\<close>).\<close>

fun Error_text :: "error \<Rightarrow> string" where
  "Error_text (errorString m) = m"
| "Error_text (wrapError m err) = m @ '': '' @ Error_text err"
| "Error_text Canceled = ''context canceled''"
| "Error_text Panic = ''invalid memory address or nil pointer dereference''"

text \<open>
  The function that \<^verbatim>\<open>Run\<close> hands to the worker pool. It assigns the variable \<^verbatim>\<open>err\<close> of
  \<^verbatim>\<open>Run\<close>, which is the first component of the state here.
\<close>

definition worker :: "env \<Rightarrow> LocalAssetFile \<Rightarrow> error option \<times> UpCmd \<Rightarrow> error option \<times> UpCmd" where
  "worker e a s =
     (case s of
        (err, app) \<Rightarrow>
          if Err a \<noteq> None then (err, logf Warning ''%s: %q'' app)
          else (case handleAsset e app a of
                  (err1, app1) \<Rightarrow>
                    (err1, if err1 \<noteq> None then logf Warning ''%s: %q'' app1 else app1)))"

definition Run_stack :: "env \<Rightarrow> Stack \<Rightarrow> error option \<times> UpCmd \<Rightarrow> error option \<times> UpCmd" where
  "Run_stack e s st =
     (case st of
        (err, app) \<Rightarrow>
          let app1 = logf OK ''  Stacking %s...'' app
          in if \<not> DryRun app1
             then
               let r = UpdateAssets_ret e (effects app1) (IDs s) (CoverID s);
                   app2 = perform (UpdateAssets (IDs s) False False False (CoverID s)) app1
               in (r, if r \<noteq> None then logf Warning ''Can't stack images: %s'' app2 else app2)
             else (err, app1))"

definition Run_stacks :: "env \<Rightarrow> error option \<times> UpCmd \<Rightarrow> error option \<times> UpCmd" where
  "Run_stacks e st =
     (case st of
        (err, app) \<Rightarrow>
          if CreateStacks app
          then (let ss = Stacks e (stacks app)
                in if length ss > 0 then fold (Run_stack e) ss (err, logf OK ''Creating stacks'' app)
                   else (err, app))
          else (err, app))"

definition Run_albums :: "env \<Rightarrow> error option \<times> UpCmd \<Rightarrow> error option \<times> UpCmd" where
  "Run_albums e st =
     (case st of
        (err, app) \<Rightarrow>
          if CreateAlbums app \<or> CreateAlbumAfterFolder app \<or>
             (KeepPartner app \<and> length (PartnerAlbum app) > 0) \<or> length (ImportIntoAlbum app) > 0
          then (case ManageAlbums e (logf OK ''Managing albums'' app) of
                  (Some err1, app1) \<Rightarrow> (None, logf Error (Error_text err1) app1)
                | (None, app1) \<Rightarrow> (None, app1))
          else (err, app))"

definition Run_deletions :: "env \<Rightarrow> error option \<times> UpCmd \<Rightarrow> error option \<times> UpCmd" where
  "Run_deletions e st =
     (case st of
        (err, app) \<Rightarrow>
          (case (if length (deleteServerList app) > 0
                 then DeleteServerAssets e app
                        (All_list (AllStops e) (\<lambda>da ids. (True, ids @ [ID da]))
                           (deleteServerList app) [])
                 else (None, app)) of
             (Some err1, app1) \<Rightarrow> (Some (wrapError ''can't delete server's assets'' err1), app1)
           | (None, app1) \<Rightarrow>
               (case (if length (deleteLocalList app1) > 0 then DeleteLocalAssets e app1
                      else (err, app1)) of
                  (err2, app2) \<Rightarrow> (err2, logf OK ''%d media scanned, %d uploaded.'' app2))))"

text \<open>
  Modelled from the spec: \<^verbatim>\<open>xsync.Worker\<close> (\<^verbatim>\<open>NewWorker\<close>, \<^verbatim>\<open>Enqueue\<close>, \<^verbatim>\<open>Finish\<close>, \<^verbatim>\<open>Wait\<close>)
  is not in \<^verbatim>\<open>upload.go\<close>. It is a pool that runs the given function on every enqueued
  item, and \<^verbatim>\<open>Wait\<close> returns when every dispatched task has completed (spec 4.3). The
  tasks are run here one after the other, in the order of the list: the interleaving of
  tasks that run at the same time is not modelled.
\<close>

definition Worker_run :: "('a \<Rightarrow> 's \<Rightarrow> 's) \<Rightarrow> 'a list \<Rightarrow> 's \<Rightarrow> 's" where
  "Worker_run f items s = fold f items s"

text \<open>
  \<^verbatim>\<open>Run\<close>. \<open>browse\<close> is what the explorer gives: the error of its creation, or the files
  that its channel delivers. \<open>ctx\<close> is the cancellation of the context: \<open>Some k\<close> when the
  dispatch loop sees it after \<open>k\<close> files; \<^verbatim>\<open>Run\<close> then returns the error of the context at
  once, without the deferred phases (the \<open>k\<close> dispatched tasks are taken as completed).
\<close>

definition Run ::
  "env \<Rightarrow> UpCmd \<Rightarrow> error + LocalAssetFile list \<Rightarrow> nat option \<Rightarrow> error option \<times> UpCmd" where
  "Run e app browse ctx =
     (let app1 = (if GooglePhotos app
                  then (logf OK ''Browsing google take out archive...'' app)\<lparr>Delete := False\<rparr>
                  else logf OK ''Browsing folder(s)...'' app)
      in case browse of
           Inl err \<Rightarrow> (Some err, logf Error (Error_text err) app1)
         | Inr files \<Rightarrow>
             let app2 = logf OK ''Done.'' app1
             in (case ctx of
                   Some k \<Rightarrow>
                     if k \<le> length files
                     then (Some Canceled, snd (Worker_run (worker e) (take k files) (None, app2)))
                     else Run_deletions e (Run_albums e (Run_stacks e
                            (Worker_run (worker e) files (None, app2))))
                 | None \<Rightarrow>
                     Run_deletions e (Run_albums e (Run_stacks e
                       (Worker_run (worker e) files (None, app2))))))"

subsection \<open>Classifying the calls\<close>

text \<open>
  The phase of a run in which a call is made: the workers (0), the creation of stacks (1),
  the reconciliation of albums (2), the remote deletions (3) and the local deletions (4).
\<close>

fun phase :: "effect \<Rightarrow> nat" where
  "phase (AssetUpload a) = 0"
| "phase (Close a) = 0"
| "phase (UpdateAssets ids ar fa rp cover) = 1"
| "phase GetAllAlbums = 2"
| "phase (AddAssetToAlbum i ids) = 2"
| "phase (CreateAlbum n ids) = 2"
| "phase (DeleteAssets ids force) = 3"
| "phase (Remove a) = 4"

text \<open>The calls that change the server or remove a local file.\<close>

fun mutating :: "effect \<Rightarrow> bool" where
  "mutating (AssetUpload a) = True"
| "mutating (DeleteAssets ids force) = True"
| "mutating (AddAssetToAlbum i ids) = True"
| "mutating (CreateAlbum n ids) = True"
| "mutating (UpdateAssets ids ar fa rp cover) = True"
| "mutating (Remove a) = True"
| "mutating GetAllAlbums = False"
| "mutating (Close a) = False"

text \<open>
  What the properties of a run look at: whether the run is a dry run, and the calls made so
  far. \<open>appends k t t'\<close> holds when \<open>t'\<close> continues \<open>t\<close> with calls of phase \<open>k\<close> only, none
  of them mutating if the run is a dry run, and the dry-run flag is the same.
\<close>

definition trace :: "UpCmd \<Rightarrow> bool \<times> effect list" where
  "trace app = (DryRun app, effects app)"

definition appends :: "nat \<Rightarrow> bool \<times> effect list \<Rightarrow> bool \<times> effect list \<Rightarrow> bool" where
  "appends k t t' \<longleftrightarrow>
     fst t' = fst t \<and>
     take (length (snd t)) (snd t') = snd t \<and>
     list_all (\<lambda>x. phase x = k \<and> (if fst t then \<not> mutating x else True))
       (drop (length (snd t)) (snd t'))"

subsection \<open>An example run\<close>

text \<open>
  A server that holds one asset, \<^verbatim>\<open>IMG_0001.JPG\<close> of 1,500,000 bytes, a local file of the
  same name and capture time with 2,000,000 bytes (scenario 1 of the spec), and an
  environment in which every call succeeds. The flags of \<open>app0\<close> are those that
  \<^verbatim>\<open>NewUpCmd\<close> sets when no flag is given.
\<close>

definition env0 :: env where
  "env0 =
     \<lparr>LocalDeviceAssetID = (\<lambda>la. FileName la @ '':'' @ Title la),
      MimeFromExt = (\<lambda>x. x = ''.JPG''),
      Dir = (\<lambda>p. ''.''),
      indexName = Title,
      NewString = (\<lambda>n. ''uuid-'' @ replicate n CHR ''x''),
      Stacks = (\<lambda>q. []),
      rangeAlbums = (\<lambda>m. m),
      keys = (\<lambda>l. l),
      AllStops = True,
      AssetUpload_ret = (\<lambda>h a. Inr \<lparr>resp_ID = ''new-'' @ FileName a, Duplicate = False\<rparr>),
      DeleteAssets_ret = (\<lambda>h ids. None),
      GetAllAlbums_ret = (\<lambda>h. Inr []),
      AddAssetToAlbum_ret = (\<lambda>h i ids. Inr []),
      CreateAlbum_ret = (\<lambda>h n ids. None),
      UpdateAssets_ret = (\<lambda>h ids c. None),
      Remove_ret = (\<lambda>h a. None)\<rparr>"

definition sa0 :: Asset where
  "sa0 = \<lparr>ID = ''remote-1'', DeviceAssetID = ''other.JPG:IMG_0001.JPG'',
          OriginalFileName = ''IMG_0001.JPG'', DateTimeOriginal = 1000 * Minute,
          FileSizeInByte = 1500000, asset_Albums = [], JustUploaded = False\<rparr>"

definition ai0 :: AssetIndex where
  "ai0 = \<lparr>assets = [sa0], byID = [DeviceAssetID sa0 \<mapsto> sa0],
          byName = [OriginalFileName sa0 \<mapsto> [sa0]]\<rparr>"

text \<open>
  An index with a second asset of the same name and capture time, which has exactly the
  size of the local file.
\<close>

definition sa1 :: Asset where
  "sa1 = sa0\<lparr>ID := ''remote-2'', DeviceAssetID := ''third.JPG:IMG_0001.JPG'',
             FileSizeInByte := 2000000\<rparr>"

definition ai1 :: AssetIndex where
  "ai1 = \<lparr>assets = [sa0, sa1],
          byID = [DeviceAssetID sa0 \<mapsto> sa0, DeviceAssetID sa1 \<mapsto> sa1],
          byName = [OriginalFileName sa0 \<mapsto> [sa0, sa1]]\<rparr>"

text \<open>
  An index whose asset of that name was taken exactly five minutes after the local file.
\<close>

definition sa5 :: Asset where
  "sa5 = sa0\<lparr>DateTimeOriginal := 1005 * Minute\<rparr>"

definition ai5 :: AssetIndex where
  "ai5 = \<lparr>assets = [sa5], byID = [DeviceAssetID sa5 \<mapsto> sa5],
          byName = [OriginalFileName sa5 \<mapsto> [sa5]]\<rparr>"

definition la0 :: LocalAssetFile where
  "la0 = \<lparr>FileName = ''IMG_0001.JPG'', Title = ''IMG_0001.JPG'', Albums = [], Err = None,
          DateTaken = 1000 * Minute, Trashed = False, FromPartner = False, Size = 2000000,
          SideCar = None\<rparr>"

definition app0 :: UpCmd where
  "app0 =
     \<lparr>GooglePhotos = False, Delete = False, CreateAlbumAfterFolder = False,
      ImportIntoAlbum = '''', PartnerAlbum = '''',
      DateRange = \<lparr>IsSet = False, InRange = (\<lambda>d. True)\<rparr>,
      ImportFromAlbum = '''', CreateAlbums = True, KeepTrashed = False, KeepPartner = True,
      KeepUntitled = False, UseFolderAsAlbumName = False, DryRun = False, ForceSidecar = False,
      CreateStacks = True, AssetIndex = ai0, deleteServerList = [], deleteLocalList = [],
      mediaUploaded = 0, mediaCount = 0, stacks = [], updateAlbums = [], log = [],
      effects = [], uuids = 0\<rparr>"

text \<open>Variants of the example in which one call fails.\<close>

definition envU :: env where
  "envU = env0\<lparr>AssetUpload_ret := (\<lambda>h a. Inl (errorString ''upload failed''))\<rparr>"






text \<open>
  A run in which every phase has something to do: the local file replaces the smaller
  asset of the server, is stacked, goes into the album Vacation, and is deleted locally.
\<close>

definition envS :: env where
  "envS =
     env0\<lparr>Stacks :=
            (\<lambda>q. case q of [] \<Rightarrow> []
                   | (i, n, d) # r \<Rightarrow> [\<lparr>CoverID = i, IDs = map fst q, Names = map (fst \<circ> snd) q\<rparr>])\<rparr>"

definition appS :: UpCmd where
  "appS = app0\<lparr>Delete := True, ImportIntoAlbum := ''Vacation''\<rparr>"

text \<open>The same run against a server that has the album Vacation and refuses to update it.\<close>

definition envV :: env where
  "envV =
     envS\<lparr>GetAllAlbums_ret := (\<lambda>h. Inr [\<lparr>album_ID = ''album-V'', AlbumName = ''Vacation''\<rparr>]),
          AddAssetToAlbum_ret := (\<lambda>h i ids. Inl (errorString ''server error''))\<rparr>"

section \<open>Properties of the advice engine\<close>

lemma sint_sub_nonneg:
  fixes a b :: "64 word"
  assumes "0 \<le> sint a" "0 \<le> sint b"
  shows "sint (a - b) = sint a - sint b"
proof -
  have "sint a < 2 ^ 63" "sint b < 2 ^ 63"
    using sint_lt [of a] sint_lt [of b] by simp_all
  with assms have "- (2 ^ 63) \<le> sint a - sint b" "sint a - sint b < 2 ^ 63"
    by linarith+
  then show ?thesis
    by (simp add: sint_word_diff signed_take_bit_int_eq_self)
qed

text \<open>
  On sizes that are not negative the loop returns what the first candidate with an equal
  date decides, and passes over the others.
\<close>

lemma ShouldUpload_loop_find:
  assumes "0 \<le> sint sz" "\<forall>sa \<in> set l. 0 \<le> sint (FileSizeInByte sa)"
  shows "ShouldUpload_loop d sz l =
     (case find (\<lambda>sa. compareDate d (DateTimeOriginal sa) = 0) l of
        None \<Rightarrow> None
      | Some sa \<Rightarrow>
          Some (if sint sz = sint (FileSizeInByte sa) then adviceSameOnServer sa
                else if sint sz > sint (FileSizeInByte sa) then adviceSmallerOnServer sa
                else adviceBetterOnServer sa))"
  using assms
proof (induction l)
  case Nil
  then show ?case by simp
next
  case (Cons sa l)
  then have d: "sint (sz - FileSizeInByte sa) = sint sz - sint (FileSizeInByte sa)"
    by (simp add: sint_sub_nonneg)
  from Cons show ?case
    by (auto simp: Let_def d)
qed

lemma ShouldUpload_loop_not_IDontKnow:
  "ShouldUpload_loop d sz l = Some adv \<Longrightarrow> Advice adv \<noteq> IDontKnow"
  by (induction l)
     (auto simp: Let_def adviceSameOnServer_def adviceSmallerOnServer_def
        adviceBetterOnServer_def split: if_splits)

lemma compareDate_eq_0_iff:
  "compareDate d1 d2 = 0 \<longleftrightarrow> - 5 * Minute \<le> d1 - d2 \<and> d1 - d2 < 5 * Minute"
  by (auto simp: compareDate_def Sub_def Minute_def minDuration_def maxDuration_def Let_def)

text \<open>
  Claim C1. A local file whose device-scoped identifier is in the index gets the advice
  SameOnServer for the indexed asset. The result does not mention the name, the size or
  the capture time of the file, and it is the same whatever the name index \<open>m\<close> holds.
\<close>

theorem ShouldUpload_same_device_id:
  assumes "ByID ai (LocalDeviceAssetID e la) = Some sa"
  shows "ShouldUpload e (ai\<lparr>byName := m\<rparr>) la = (Some (adviceSameOnServer sa), None)
       \<and> Advice (adviceSameOnServer sa) = SameOnServer
       \<and> ServerAsset (adviceSameOnServer sa) = Some sa"
  using assms by (simp add: ShouldUpload_def ByID_def adviceSameOnServer_def)

theorem ShouldUpload_same_device_id_witness:
  "ByID ai0 (LocalDeviceAssetID env0 (la0\<lparr>FileName := ''other.JPG'', Size := 7, DateTaken := 0\<rparr>))
     = Some sa0
   \<and> ShouldUpload env0 (ai0\<lparr>byName := Map.empty\<rparr>)
        (la0\<lparr>FileName := ''other.JPG'', Size := 7, DateTaken := 0\<rparr>)
       = (Some (adviceSameOnServer sa0), None)"
proof -
  have h: "ByID ai0 (LocalDeviceAssetID env0
             (la0\<lparr>FileName := ''other.JPG'', Size := 7, DateTaken := 0\<rparr>)) = Some sa0"
    by (simp add: ByID_def ai0_def env0_def la0_def sa0_def)
  from ShouldUpload_same_device_id [OF h, of Map.empty] h show ?thesis by simp
qed

text \<open>
  When the device-scoped identifier is not in the index, the advice is decided by the first
  asset of the same base name, in the order of the index's list, whose capture time
  \<^verbatim>\<open>compareDate\<close> finds equal: SameOnServer for equal sizes, SmallerOnServer when the local
  file is larger, BetterOnServer when it is smaller. Assets whose time compares unequal are
  passed over, and without a time-equal asset the advice is NotOnServer. Sizes are byte
  counts, so they are not negative.
\<close>

lemma ShouldUpload_first_time_equal:
  assumes "ByID ai (LocalDeviceAssetID e la) = None"
    and "n = Base (if Ext (Title la) = '''' then Title la @ Ext (FileName la) else Title la)"
    and "0 \<le> sint (Size la)"
    and "\<forall>sa \<in> set (ByName ai n). 0 \<le> sint (FileSizeInByte sa)"
  shows "ShouldUpload e ai la =
     (case find (\<lambda>sa. compareDate (DateTaken la) (DateTimeOriginal sa) = 0) (ByName ai n) of
        None \<Rightarrow> (Some adviceNotOnServer, None)
      | Some sa \<Rightarrow>
          (Some (if sint (Size la) = sint (FileSizeInByte sa) then adviceSameOnServer sa
                 else if sint (Size la) > sint (FileSizeInByte sa) then adviceSmallerOnServer sa
                 else adviceBetterOnServer sa), None))"
proof -
  have loop: "ShouldUpload_loop (DateTaken la) (Size la) (ByName ai n) =
     (case find (\<lambda>sa. compareDate (DateTaken la) (DateTimeOriginal sa) = 0) (ByName ai n) of
        None \<Rightarrow> None
      | Some sa \<Rightarrow>
          Some (if sint (Size la) = sint (FileSizeInByte sa) then adviceSameOnServer sa
                else if sint (Size la) > sint (FileSizeInByte sa) then adviceSmallerOnServer sa
                else adviceBetterOnServer sa))"
    using assms(3,4) by (rule ShouldUpload_loop_find)
  show ?thesis
  proof (cases "ByName ai n = []")
    case True
    with assms(1,2) show ?thesis by (simp add: ShouldUpload_def Let_def)
  next
    case False
    with assms(1) show ?thesis
      unfolding ShouldUpload_def Let_def assms(2) [symmetric] loop
      by (simp split: option.splits)
  qed
qed

text \<open>
  The first of two time-equal candidates decides, though the second has the size of the
  local file.
\<close>

lemma ShouldUpload_first_time_equal_example:
  "ByID ai1 (LocalDeviceAssetID env0 la0) = None
   \<and> ''IMG_0001.JPG''
       = Base (if Ext (Title la0) = '''' then Title la0 @ Ext (FileName la0) else Title la0)
   \<and> 0 \<le> sint (Size la0)
   \<and> ByName ai1 ''IMG_0001.JPG'' = [sa0, sa1]
   \<and> 0 \<le> sint (FileSizeInByte sa0) \<and> 0 \<le> sint (FileSizeInByte sa1)
   \<and> Size la0 = FileSizeInByte sa1
   \<and> ShouldUpload env0 ai1 la0 = (Some (adviceSmallerOnServer sa0), None)"
proof -
  have h1: "ByID ai1 (LocalDeviceAssetID env0 la0) = None"
    by (simp add: ByID_def ai1_def env0_def la0_def sa0_def sa1_def)
  have h2: "''IMG_0001.JPG''
      = Base (if Ext (Title la0) = '''' then Title la0 @ Ext (FileName la0) else Title la0)"
    by (simp add: la0_def Ext_def Base_def)
  have h3: "0 \<le> sint (Size la0)"
    by (simp add: la0_def)
  have l: "ByName ai1 ''IMG_0001.JPG'' = [sa0, sa1]"
    and s: "0 \<le> sint (FileSizeInByte sa0)" "0 \<le> sint (FileSizeInByte sa1)"
    and q: "Size la0 = FileSizeInByte sa1"
    by (simp_all add: ByName_def ai1_def sa0_def sa1_def la0_def)
  then have h4: "\<forall>sa \<in> set (ByName ai1 ''IMG_0001.JPG''). 0 \<le> sint (FileSizeInByte sa)"
    by simp
  have "ShouldUpload env0 ai1 la0 = (Some (adviceSmallerOnServer sa0), None)"
    using ShouldUpload_first_time_equal [OF h1 h2 h3 h4]
    by (simp add: l sa0_def la0_def compareDate_def Sub_def Minute_def
          minDuration_def maxDuration_def)
  with h1 h2 h3 l s q show ?thesis by blast
qed

text \<open>
  The same with the comparison of the times written out: the local time minus the remote
  time is at least minus five minutes and less than five minutes.
\<close>

lemma ShouldUpload_first_in_window:
  assumes "ByID ai (LocalDeviceAssetID e la) = None"
    and "n = Base (if Ext (Title la) = '''' then Title la @ Ext (FileName la) else Title la)"
    and "0 \<le> sint (Size la)"
    and "\<forall>sa \<in> set (ByName ai n). 0 \<le> sint (FileSizeInByte sa)"
  shows "ShouldUpload e ai la =
     (case find (\<lambda>sa. - 5 * Minute \<le> DateTaken la - DateTimeOriginal sa \<and>
                      DateTaken la - DateTimeOriginal sa < 5 * Minute) (ByName ai n) of
        None \<Rightarrow> (Some adviceNotOnServer, None)
      | Some sa \<Rightarrow>
          (Some (if sint (Size la) = sint (FileSizeInByte sa) then adviceSameOnServer sa
                 else if sint (Size la) > sint (FileSizeInByte sa) then adviceSmallerOnServer sa
                 else adviceBetterOnServer sa), None))"
  using ShouldUpload_first_time_equal [OF assms] by (simp add: compareDate_eq_0_iff)

text \<open>
  Claim C2. The claim takes a candidate whose capture time differs by five minutes or more
  as unequal, so that such a candidate alone gives NotOnServer. A remote asset of the same
  name taken exactly five minutes after the local file is matched all the same: the local
  file is larger, and the advice is SmallerOnServer for that asset. The other way round, a
  local file taken exactly five minutes after the remote asset is NotOnServer, as the claim
  says. This is the lower bound of \<^verbatim>\<open>compareDate\<close> (claim C3).
\<close>

theorem ShouldUpload_five_minutes_later_matches:
  "DateTimeOriginal sa5 - DateTaken la0 = 5 * Minute
   \<and> ByID ai5 (LocalDeviceAssetID env0 la0) = None
   \<and> ShouldUpload env0 ai5 la0 = (Some (adviceSmallerOnServer sa5), None)
   \<and> DateTaken (la0\<lparr>DateTaken := 1010 * Minute\<rparr>) - DateTimeOriginal sa5 = 5 * Minute
   \<and> ShouldUpload env0 ai5 (la0\<lparr>DateTaken := 1010 * Minute\<rparr>) = (Some adviceNotOnServer, None)"
  by (simp add: ShouldUpload_def ByID_def ByName_def ai5_def sa5_def sa0_def la0_def env0_def
        Ext_def Base_def Let_def compareDate_def Sub_def Minute_def minDuration_def
        maxDuration_def)

text \<open>
  Claim C3. The claim lets a difference of five minutes or more, in either direction,
  make the times unequal. \<^verbatim>\<open>compareDate\<close> tests \<^verbatim>\<open>diff < -5*time.Minute\<close> on one side and
  \<^verbatim>\<open>diff >= 5*time.Minute\<close> on the other: a local file taken exactly five minutes before
  the remote asset compares equal, one taken exactly five minutes after it compares later.
\<close>

theorem compareDate_five_minutes_earlier:
  "compareDate 0 (5 * Minute) = 0 \<and> compareDate (5 * Minute) 0 = 1"
  by (simp add: compareDate_def Sub_def Minute_def minDuration_def maxDuration_def)

text \<open>
  Claim C9. \<^verbatim>\<open>ShouldUpload\<close> returns an advice and no error, and the advice is never
  IDontKnow.
\<close>

theorem ShouldUpload_never_IDontKnow:
  "\<exists>adv. ShouldUpload e ai la = (Some adv, None) \<and> Advice adv \<noteq> IDontKnow"
  by (auto simp: ShouldUpload_def Let_def adviceSameOnServer_def adviceNotOnServer_def
        dest: ShouldUpload_loop_not_IDontKnow split: option.splits)

theorem ShouldUpload_never_IDontKnow_witness:
  "\<exists>adv. ShouldUpload env0 ai0 (la0\<lparr>Title := ''IMG_0002.JPG''\<rparr>) = (Some adv, None)
         \<and> Advice adv \<noteq> IDontKnow"
  using ShouldUpload_never_IDontKnow [of env0 ai0 "la0\<lparr>Title := ''IMG_0002.JPG''\<rparr>"] by simp

section \<open>Properties of the per-file handler\<close>

text \<open>
  When the upload fails, \<^verbatim>\<open>UploadAsset\<close> itself returns before it touches the index, the
  stack builder or the album accumulator.
\<close>

lemma UploadAsset_failure_frame:
  assumes "\<not> DryRun app"
    and "AssetUpload_ret e (effects app)
           (if ForceSidecar app
            then a\<lparr>SideCar := Some \<lparr>sc_FileName = FileName a @ ''.xmp'',
                                      sc_DateTaken = DateTaken a\<rparr>\<rparr>
            else a) = Inl err"
  shows "deleteServerList (fst (UploadAsset e app a)) = deleteServerList app"
    and "deleteLocalList (fst (UploadAsset e app a)) = deleteLocalList app"
    and "updateAlbums (fst (UploadAsset e app a)) = updateAlbums app"
    and "stacks (fst (UploadAsset e app a)) = stacks app"
  using assms by (simp_all add: UploadAsset_def logf_def perform_def Let_def)

text \<open>
  Claim C4. The claim asks that a file whose upload fails adds nothing to the deletion
  sets. \<^verbatim>\<open>UploadAsset\<close> has no result, so \<^verbatim>\<open>handleAsset\<close> goes on after a failed upload as
  after a successful one: with a smaller asset of the same name on the server, the server
  asset is queued for deletion; with the option \<^verbatim>\<open>Delete\<close>, the local file is queued for
  deletion.
\<close>

theorem handleAsset_failed_upload_queues_deletions:
  "AssetUpload_ret envU (effects app0) la0 = Inl (errorString ''upload failed'')
   \<and> deleteServerList app0 = []
   \<and> deleteServerList (snd (handleAsset envU app0 la0)) = [sa0]
   \<and> deleteLocalList (app0\<lparr>Delete := True\<rparr>) = []
   \<and> deleteLocalList
        (snd (handleAsset envU (app0\<lparr>Delete := True\<rparr>) (la0\<lparr>Title := ''IMG_0002.JPG''\<rparr>)))
       = [la0\<lparr>Title := ''IMG_0002.JPG''\<rparr>]"
  by (simp add: handleAsset_def handleAsset_body_def handleAsset_switch_def envU_def env0_def
        app0_def la0_def ai0_def sa0_def ShouldUpload_def Ext_def Base_def ByID_def ByName_def
        Let_def compareDate_def Sub_def Minute_def minDuration_def maxDuration_def
        adviceSmallerOnServer_def adviceNotOnServer_def UploadAsset_def logf_def perform_def
        pushLocal_def)

section \<open>Properties of the deferred phases\<close>







section \<open>The calls of a run\<close>

lemma appends_iff:
  "appends k (d, xs) (d', ys) \<longleftrightarrow>
     d' = d \<and> (\<exists>zs. ys = xs @ zs \<and> (\<forall>x \<in> set zs. phase x = k \<and> (d \<longrightarrow> \<not> mutating x)))"
proof
  assume a: "appends k (d, xs) (d', ys)"
  then have "take (length xs) ys = xs" by (simp add: appends_def)
  then have "ys = xs @ drop (length xs) ys"
    by (metis append_take_drop_id)
  moreover from a have "\<forall>x \<in> set (drop (length xs) ys). phase x = k \<and> (d \<longrightarrow> \<not> mutating x)"
    by (auto simp: appends_def list_all_iff split: if_splits)
  moreover from a have "d' = d" by (simp add: appends_def)
  ultimately show "d' = d \<and> (\<exists>zs. ys = xs @ zs \<and> (\<forall>x \<in> set zs. phase x = k \<and> (d \<longrightarrow> \<not> mutating x)))"
    by blast
next
  assume "d' = d \<and> (\<exists>zs. ys = xs @ zs \<and> (\<forall>x \<in> set zs. phase x = k \<and> (d \<longrightarrow> \<not> mutating x)))"
  then show "appends k (d, xs) (d', ys)"
    by (auto simp: appends_def list_all_iff)
qed

lemma appends_refl [simp]: "appends k t t"
  by (simp add: appends_def)

lemma appends_trans:
  assumes "appends k t1 t2" "appends k t2 t3"
  shows "appends k t1 t3"
proof -
  obtain d1 xs1 d2 xs2 d3 xs3 where t: "t1 = (d1, xs1)" "t2 = (d2, xs2)" "t3 = (d3, xs3)"
    by (cases t1, cases t2, cases t3) blast
  from assms show ?thesis
    unfolding t appends_iff by auto
qed

lemma appendsD:
  assumes "appends k (trace app) (trace app')"
  shows "DryRun app' = DryRun app \<and>
         (\<exists>xs. effects app' = effects app @ xs \<and>
            (\<forall>x \<in> set xs. phase x = k \<and> (DryRun app \<longrightarrow> \<not> mutating x)))"
  using assms by (simp add: trace_def appends_iff)

lemma appends_perform:
  "phase x = k \<Longrightarrow> (DryRun app \<Longrightarrow> \<not> mutating x) \<Longrightarrow>
   appends k (trace app) (trace (perform x app))"
  by (simp add: trace_def perform_def appends_iff)

lemma appends_step:
  "appends k t (trace app) \<Longrightarrow> phase x = k \<Longrightarrow> (DryRun app \<Longrightarrow> \<not> mutating x) \<Longrightarrow>
   appends k t (trace (perform x app))"
  by (erule appends_trans) (rule appends_perform)

text \<open>The functions that change the state in memory only.\<close>

lemma trace_logf [simp]: "trace (logf lv msg app) = trace app"
  by (simp add: trace_def logf_def)

lemma trace_AddToAlbum [simp]: "trace (AddToAlbum i n app) = trace app"
  by (simp add: trace_def AddToAlbum_def Let_def)

lemma trace_fold:
  assumes "\<And>x s. trace (f x s) = trace s"
  shows "trace (fold f xs s) = trace s"
  using assms by (induction xs arbitrary: s) simp_all

lemma trace_addToLocalAlbums [simp]: "trace (addToLocalAlbums i a app) = trace app"
  by (simp add: addToLocalAlbums_def trace_fold)

lemma trace_addToPartnerAlbum [simp]: "trace (addToPartnerAlbum i a app) = trace app"
  by (simp add: addToPartnerAlbum_def)

lemma trace_pushLocal [simp]: "trace (pushLocal a app) = trace app"
  by (simp add: pushLocal_def trace_def)

lemma trace_ProcessAsset [simp]: "trace (ProcessAsset i n d app) = trace app"
  by (simp add: ProcessAsset_def trace_def)

lemma trace_logResults [simp]: "trace (logResults rr app) = trace app"
  by (simp add: logResults_def Let_def trace_fold)

lemma trace_updates [simp]:
  "trace (app\<lparr>mediaCount := n\<rparr>) = trace app"
  "trace (app\<lparr>mediaUploaded := n\<rparr>) = trace app"
  "trace (app\<lparr>deleteServerList := l\<rparr>) = trace app"
  "trace (app\<lparr>Delete := b\<rparr>) = trace app"
  "trace (app\<lparr>uuids := u\<rparr>) = trace app"
  "trace (app\<lparr>AssetIndex := ai\<rparr>) = trace app"
  "trace (app\<lparr>log := lg\<rparr>) = trace app"
  by (simp_all add: trace_def)

lemma trace_UploadAsset_addToAlbums [simp]: "trace (UploadAsset_addToAlbums e app a i) = trace app"
  by (simp add: UploadAsset_addToAlbums_def Let_def trace_fold)

lemma trace_UploadAsset_response [simp]: "trace (UploadAsset_response e app a resp) = trace app"
  by (simp add: UploadAsset_response_def Let_def trace_fold)

lemma UploadAsset_appends: "appends 0 (trace app) (trace (fst (UploadAsset e app a)))"
proof (cases "DryRun app")
  case True
  then show ?thesis
    by (simp add: UploadAsset_def Let_def logf_def)
next
  case False
  then have "appends 0 (trace app) (trace (perform (AssetUpload a') (logf OK ''Uploading %q...'' app)))" for a'
    using appends_perform [of "AssetUpload a'" 0 "logf OK ''Uploading %q...'' app"]
    by (simp add: logf_def trace_def)
  with False show ?thesis
    by (simp add: UploadAsset_def Let_def logf_def split: sum.splits)
qed

lemma handleAsset_switch_appends:
  "appends 0 (trace app) (trace (fst (snd (snd (handleAsset_switch e app a advice)))))"
proof (cases "Advice advice")
  case NotOnServer
  obtain app1 a1 where u: "UploadAsset e (logf Info ''%s: %s'' app) a = (app1, a1)"
    by (cases "UploadAsset e (logf Info ''%s: %s'' app) a")
  from UploadAsset_appends [of "logf Info ''%s: %s'' app" e a] u
  have "appends 0 (trace app) (trace app1)" by simp
  with NotOnServer u show ?thesis by (simp add: handleAsset_switch_def)
next
  case SmallerOnServer
  show ?thesis
  proof (cases "ServerAsset advice")
    case None
    with SmallerOnServer show ?thesis by (simp add: handleAsset_switch_def)
  next
    case (Some sa)
    let ?a1 = "fold (\<lambda>al la. AddAlbum \<lparr>Path = '''', Name = AlbumName al\<rparr> la) (asset_Albums sa) a"
    obtain app1 a2 where u: "UploadAsset e (logf Info ''%s: %s'' app) ?a1 = (app1, a2)"
      by (cases "UploadAsset e (logf Info ''%s: %s'' app) ?a1")
    from UploadAsset_appends [of "logf Info ''%s: %s'' app" e ?a1] u
    have "appends 0 (trace app) (trace app1)" by simp
    with SmallerOnServer Some u show ?thesis by (simp add: handleAsset_switch_def Let_def)
  qed
next
  case SameOnServer
  then show ?thesis
    by (simp add: handleAsset_switch_def Let_def split: option.splits)
next
  case BetterOnServer
  then show ?thesis
    by (simp add: handleAsset_switch_def Let_def split: option.splits)
next
  case IDontKnow
  then show ?thesis
    by (simp add: handleAsset_switch_def)
qed

lemma handleAsset_body_appends:
  "appends 0 (trace app) (trace (fst (snd (snd (handleAsset_body e app a)))))"
proof -
  have "appends 0 (trace app)
          (trace (fst (snd (snd (handleAsset_switch e (app\<lparr>mediaCount := n\<rparr>) a' advice)))))"
    for n a' advice
    using handleAsset_switch_appends [of "app\<lparr>mediaCount := n\<rparr>" e a' advice] by simp
  then show ?thesis
    by (simp add: handleAsset_body_def Let_def split: prod.splits option.splits)
qed

lemma handleAsset_appends: "appends 0 (trace app) (trace (snd (handleAsset e app a)))"
proof -
  obtain err showCount app1 a1 where b: "handleAsset_body e app a = (err, showCount, app1, a1)"
    by (cases "handleAsset_body e app a")
  from handleAsset_body_appends [of app e a] b have "appends 0 (trace app) (trace app1)"
    by simp
  then have "appends 0 (trace app) (trace (perform (Close a1) app1))"
    by (rule appends_step) simp_all
  with b show ?thesis
    by (simp add: handleAsset_def Let_def)
qed

lemma worker_appends: "appends 0 (trace (snd s)) (trace (snd (worker e a s)))"
proof -
  obtain err app where s: "s = (err, app)" by (cases s)
  obtain err1 app1 where h: "handleAsset e app a = (err1, app1)"
    by (cases "handleAsset e app a")
  from handleAsset_appends [of app e a] h have "appends 0 (trace app) (trace app1)"
    by simp
  then show ?thesis
    by (simp add: s worker_def h)
qed

lemma fold_appends:
  assumes "\<And>x s. appends k (trace (snd s)) (trace (snd (f x s)))"
  shows "appends k (trace (snd s)) (trace (snd (fold f xs s)))"
proof (induction xs arbitrary: s)
  case Nil
  show ?case by simp
next
  case (Cons x xs)
  from assms [of s x] Cons [of "f x s"] show ?case
    by (simp add: appends_trans)
qed

lemma Run_stack_appends: "appends 1 (trace (snd st)) (trace (snd (Run_stack e s st)))"
proof -
  obtain err app where st: "st = (err, app)" by (cases st)
  have "appends 1 (trace app)
          (trace (perform (UpdateAssets (IDs s) False False False (CoverID s))
                    (logf OK ''  Stacking %s...'' app)))"
    if "\<not> DryRun app"
    using that appends_perform [of "UpdateAssets (IDs s) False False False (CoverID s)" 1
                                  "logf OK ''  Stacking %s...'' app"]
    by (simp add: logf_def trace_def)
  then show ?thesis
    by (simp add: st Run_stack_def Let_def logf_def)
qed

lemma Run_stacks_appends: "appends 1 (trace (snd st)) (trace (snd (Run_stacks e st)))"
proof -
  obtain err app where st: "st = (err, app)" by (cases st)
  have "appends 1 (trace app)
          (trace (snd (fold (Run_stack e) ss (err, logf OK ''Creating stacks'' app))))" for ss
    using fold_appends [of 1 "Run_stack e" "(err, logf OK ''Creating stacks'' app)" ss,
                        OF Run_stack_appends]
    by simp
  then show ?thesis
    by (simp add: st Run_stacks_def Let_def)
qed

lemma ManageAlbums_server_appends:
  "appends 2 (trace app) (trace (snd (snd (ManageAlbums_server e album l sals found app))))"
proof (induction e album l sals found app rule: ManageAlbums_server.induct)
  case (1 e album l found app)
  show ?case by simp
next
  case (2 e album l sal sals found app)
  show ?case
  proof (cases "AlbumName sal = album")
    case False
    with 2(3) show ?thesis by simp
  next
    case True
    show ?thesis
    proof (cases "DryRun app")
      case dry: True
      from 2(2) [OF True] dry
      have "appends 2 (trace app)
              (trace (snd (snd (ManageAlbums_server e album l sals True
                 (logf OK ''Update album %s skipped - dry run mode'' app)))))"
        by simp
      with True dry show ?thesis by simp
    next
      case False
      let ?app1 = "logf OK ''Update the album %s'' app"
      let ?app2 = "perform (AddAssetToAlbum (album_ID sal) (keys e l)) ?app1"
      have p: "appends 2 (trace app) (trace ?app2)"
        using False appends_perform [of "AddAssetToAlbum (album_ID sal) (keys e l)" 2 ?app1]
        by (simp add: logf_def trace_def)
      show ?thesis
      proof (cases "AddAssetToAlbum_ret e (effects ?app1) (album_ID sal) (keys e l)")
        case (Inl err)
        with True False p show ?thesis by (simp add: Let_def)
      next
        case (Inr rr)
        from 2(1) [OF True _ refl refl refl Inr] False
        have "appends 2 (trace (logResults rr ?app2))
                (trace (snd (snd (ManageAlbums_server e album l sals True (logResults rr ?app2)))))"
          by simp
        with p have "appends 2 (trace app)
                (trace (snd (snd (ManageAlbums_server e album l sals True (logResults rr ?app2)))))"
          by (simp add: appends_trans)
        with True False Inr show ?thesis by (simp add: Let_def)
      qed
    qed
  qed
qed

lemma ManageAlbums_loop_appends:
  "appends 2 (trace app) (trace (snd (ManageAlbums_loop e sals xs app)))"
proof (induction xs arbitrary: app)
  case Nil
  show ?case by simp
next
  case (Cons x xs)
  obtain album l where x: "x = (album, l)" by (cases x)
  obtain err found app1 where s: "ManageAlbums_server e album l sals False app = (err, found, app1)"
    by (cases "ManageAlbums_server e album l sals False app")
  from ManageAlbums_server_appends [of app e album l sals False] s
  have a1: "appends 2 (trace app) (trace app1)" by simp
  show ?case
  proof (cases err)
    case (Some err1)
    with s a1 show ?thesis by (simp add: x)
  next
    case None
    show ?thesis
    proof (cases "found \<or> DryRun app1")
      case True
      from a1 Cons [of app1] Cons [of "logf OK ''Create the album %s skipped - dry run mode'' app1"]
      have "appends 2 (trace app) (trace (snd (ManageAlbums_loop e sals xs app1)))"
        "appends 2 (trace app) (trace (snd (ManageAlbums_loop e sals xs
           (logf OK ''Create the album %s skipped - dry run mode'' app1))))"
        by (auto intro: appends_trans)
      with True None s show ?thesis by (auto simp: x)
    next
      case False
      let ?app2 = "logf OK ''Create the album %s'' app1"
      let ?app3 = "perform (CreateAlbum album (keys e l)) ?app2"
      have "appends 2 (trace app1) (trace ?app3)"
        using False appends_perform [of "CreateAlbum album (keys e l)" 2 ?app2]
        by (simp add: logf_def trace_def)
      with a1 have a3: "appends 2 (trace app) (trace ?app3)"
        by (rule appends_trans)
      from a3 Cons [of ?app3]
      have "appends 2 (trace app) (trace (snd (ManageAlbums_loop e sals xs ?app3)))"
        by (rule appends_trans)
      with a3 False None s show ?thesis
        by (simp add: x Let_def split: option.splits)
    qed
  qed
qed

lemma ManageAlbums_appends: "appends 2 (trace app) (trace (snd (ManageAlbums e app)))"
proof -
  have p: "appends 2 (trace app) (trace (perform GetAllAlbums app))"
    by (rule appends_perform) simp_all
  have "appends 2 (trace app)
          (trace (snd (ManageAlbums_loop e sals xs (perform GetAllAlbums app))))" for sals xs
    using p ManageAlbums_loop_appends [of "perform GetAllAlbums app" e sals xs]
    by (rule appends_trans)
  with p show ?thesis
    by (simp add: ManageAlbums_def Let_def split: sum.splits)
qed

lemma Run_albums_appends: "appends 2 (trace (snd st)) (trace (snd (Run_albums e st)))"
proof -
  obtain err app where st: "st = (err, app)" by (cases st)
  obtain err1 app1 where m: "ManageAlbums e (logf OK ''Managing albums'' app) = (err1, app1)"
    by (cases "ManageAlbums e (logf OK ''Managing albums'' app)")
  from ManageAlbums_appends [of "logf OK ''Managing albums'' app" e] m
  have "appends 2 (trace app) (trace app1)" by simp
  with m show ?thesis
    by (simp add: st Run_albums_def split: option.splits)
qed

lemma DeleteServerAssets_appends:
  "appends 3 (trace app) (trace (snd (DeleteServerAssets e app ids)))"
proof -
  have "appends 3 (trace app)
          (trace (perform (DeleteAssets ids False) (logf Warning ''%d server assets to delete.'' app)))"
    if "\<not> DryRun app"
    using that appends_perform [of "DeleteAssets ids False" 3
                                  "logf Warning ''%d server assets to delete.'' app"]
    by (simp add: logf_def trace_def)
  then show ?thesis
    by (simp add: DeleteServerAssets_def Let_def logf_def)
qed

lemma DeleteLocalAssets_func_appends:
  "appends 4 (trace (snd s)) (trace (snd (snd (DeleteLocalAssets_func e a s))))"
proof -
  obtain err app where s: "s = (err, app)" by (cases s)
  have "appends 4 (trace app) (trace (perform (Remove a) (logf Warning ''delete file %q'' app)))"
    if "\<not> DryRun app"
    using that appends_perform [of "Remove a" 4 "logf Warning ''delete file %q'' app"]
    by (simp add: logf_def trace_def)
  then show ?thesis
    by (simp add: s DeleteLocalAssets_func_def Let_def logf_def)
qed

lemma All_list_appends:
  assumes "\<And>x s. appends k (trace (snd s)) (trace (snd (snd (f x s))))"
  shows "appends k (trace (snd s)) (trace (snd (All_list stops f xs s)))"
proof (induction xs arbitrary: s)
  case Nil
  show ?case by simp
next
  case (Cons x xs)
  obtain continue s1 where f: "f x s = (continue, s1)" by (cases "f x s")
  from assms [of s x] f have a: "appends k (trace (snd s)) (trace (snd s1))" by simp
  from a Cons [of s1] have "appends k (trace (snd s)) (trace (snd (All_list stops f xs s1)))"
    by (rule appends_trans)
  with a f show ?case by simp
qed

lemma DeleteLocalAssets_appends: "appends 4 (trace app) (trace (snd (DeleteLocalAssets e app)))"
  using All_list_appends [of 4 "DeleteLocalAssets_func e"
          "(None, logf OK ''%d local assets to delete.'' app)" "AllStops e" "deleteLocalList app",
          OF DeleteLocalAssets_func_appends]
  by (simp add: DeleteLocalAssets_def)

lemma Run_deletions_appends:
  "\<exists>app1. appends 3 (trace (snd st)) (trace app1) \<and>
          appends 4 (trace app1) (trace (snd (Run_deletions e st)))"
proof -
  obtain err app where st: "st = (err, app)" by (cases st)
  let ?ids = "All_list (AllStops e) (\<lambda>da ids. (True, ids @ [ID da])) (deleteServerList app) []"
  let ?r = "if length (deleteServerList app) > 0 then DeleteServerAssets e app ?ids else (None, app)"
  obtain err1 app1 where r: "?r = (err1, app1)" by (cases ?r)
  from DeleteServerAssets_appends [of app e ?ids] r have a: "appends 3 (trace app) (trace app1)"
    by (auto split: if_splits)
  let ?l = "if length (deleteLocalList app1) > 0 then DeleteLocalAssets e app1 else (err, app1)"
  obtain err2 app2 where l: "?l = (err2, app2)" by (cases ?l)
  from DeleteLocalAssets_appends [of app1 e] l have b: "appends 4 (trace app1) (trace app2)"
    by (auto split: if_splits)
  show ?thesis
  proof (cases err1)
    case None
    with r l have "snd (Run_deletions e st) = logf OK ''%d media scanned, %d uploaded.'' app2"
      unfolding st Run_deletions_def by simp
    with a b show ?thesis by (auto simp: st)
  next
    case (Some x)
    with r have "snd (Run_deletions e st) = app1"
      unfolding st Run_deletions_def by simp
    with a show ?thesis by (auto simp: st)
  qed
qed

lemma sorted_same_phase: "\<forall>x \<in> set xs. phase x = k \<and> P x \<Longrightarrow> sorted (map phase xs)"
  by (induction xs) auto

lemma phases_chain:
  assumes "appends 0 (trace a0) (trace a1)" "appends 1 (trace a1) (trace a2)"
    "appends 2 (trace a2) (trace a3)" "appends 3 (trace a3) (trace a4)"
    "appends 4 (trace a4) (trace a5)"
  shows "\<exists>xs. effects a5 = effects a0 @ xs \<and> sorted (map phase xs) \<and>
           (DryRun a0 \<longrightarrow> (\<forall>x \<in> set xs. \<not> mutating x))"
proof -
  from appendsD [OF assms(1)] obtain x0 where 0: "DryRun a1 = DryRun a0"
    "effects a1 = effects a0 @ x0" "\<forall>x \<in> set x0. phase x = 0 \<and> (DryRun a0 \<longrightarrow> \<not> mutating x)"
    by blast
  from appendsD [OF assms(2)] obtain x1 where 1: "DryRun a2 = DryRun a1"
    "effects a2 = effects a1 @ x1" "\<forall>x \<in> set x1. phase x = 1 \<and> (DryRun a1 \<longrightarrow> \<not> mutating x)"
    by blast
  from appendsD [OF assms(3)] obtain x2 where 2: "DryRun a3 = DryRun a2"
    "effects a3 = effects a2 @ x2" "\<forall>x \<in> set x2. phase x = 2 \<and> (DryRun a2 \<longrightarrow> \<not> mutating x)"
    by blast
  from appendsD [OF assms(4)] obtain x3 where 3: "DryRun a4 = DryRun a3"
    "effects a4 = effects a3 @ x3" "\<forall>x \<in> set x3. phase x = 3 \<and> (DryRun a3 \<longrightarrow> \<not> mutating x)"
    by blast
  from appendsD [OF assms(5)] obtain x4 where 4: "DryRun a5 = DryRun a4"
    "effects a5 = effects a4 @ x4" "\<forall>x \<in> set x4. phase x = 4 \<and> (DryRun a4 \<longrightarrow> \<not> mutating x)"
    by blast
  let ?xs = "x0 @ x1 @ x2 @ x3 @ x4"
  have "effects a5 = effects a0 @ ?xs"
    using 0(2) 1(2) 2(2) 3(2) 4(2) by simp
  moreover have "sorted (map phase ?xs)"
  proof -
    have "sorted (map phase x0)" "sorted (map phase x1)" "sorted (map phase x2)"
      "sorted (map phase x3)" "sorted (map phase x4)"
      using 0(3) 1(3) 2(3) 3(3) 4(3) by (auto intro: sorted_same_phase)
    with 0(3) 1(3) 2(3) 3(3) 4(3) show ?thesis
      by (auto simp: sorted_append)
  qed
  moreover have "DryRun a0 \<longrightarrow> (\<forall>x \<in> set ?xs. \<not> mutating x)"
    using 0(1,3) 1(1,3) 2(1,3) 3(1,3) 4(3) by auto
  ultimately show ?thesis by blast
qed

lemma Run_flush_trace:
  assumes "appends 0 (trace app) (trace (snd s))"
  shows "\<exists>xs. effects (snd (Run_deletions e (Run_albums e (Run_stacks e s)))) = effects app @ xs \<and>
           sorted (map phase xs) \<and> (DryRun app \<longrightarrow> (\<forall>x \<in> set xs. \<not> mutating x))"
proof -
  from Run_deletions_appends [of "Run_albums e (Run_stacks e s)" e] obtain app1 where
    d: "appends 3 (trace (snd (Run_albums e (Run_stacks e s)))) (trace app1)"
       "appends 4 (trace app1) (trace (snd (Run_deletions e (Run_albums e (Run_stacks e s)))))"
    by blast
  from assms Run_stacks_appends [of s e] Run_albums_appends [of "Run_stacks e s" e] d
  show ?thesis by (rule phases_chain)
qed

lemma Run_trace:
  "\<exists>xs. effects (snd (Run e app browse ctx)) = effects app @ xs \<and> sorted (map phase xs) \<and>
        (DryRun app \<longrightarrow> (\<forall>x \<in> set xs. \<not> mutating x))"
proof -
  let ?app1 = "if GooglePhotos app
               then (logf OK ''Browsing google take out archive...'' app)\<lparr>Delete := False\<rparr>
               else logf OK ''Browsing folder(s)...'' app"
  let ?app2 = "logf OK ''Done.'' ?app1"
  have t2: "trace ?app2 = trace app" by simp
  have w: "appends 0 (trace app) (trace (snd (Worker_run (worker e) fs (None, ?app2))))" for fs
    using fold_appends [of 0 "worker e" "(None, ?app2)" fs, OF worker_appends]
    unfolding snd_conv t2 Worker_run_def .
  show ?thesis
  proof (cases browse)
    case (Inl err)
    then have "effects (snd (Run e app browse ctx)) = effects app @ []"
      by (simp add: Run_def Let_def logf_def)
    then show ?thesis by (intro exI [of _ "[]"]) simp
  next
    case (Inr files)
    show ?thesis
    proof (cases "\<exists>k. ctx = Some k \<and> k \<le> length files")
      case True
      then obtain k where k: "ctx = Some k" "k \<le> length files" by blast
      then have r: "snd (Run e app browse ctx) = snd (Worker_run (worker e) (take k files) (None, ?app2))"
        by (simp add: Run_def Let_def Inr)
      from phases_chain [OF w [of "take k files"] appends_refl appends_refl appends_refl appends_refl]
      show ?thesis unfolding r .
    next
      case False
      then have r: "Run e app browse ctx
          = Run_deletions e (Run_albums e (Run_stacks e (Worker_run (worker e) files (None, ?app2))))"
        by (auto simp: Run_def Let_def Inr split: option.splits)
      from Run_flush_trace [OF w [of files]] show ?thesis unfolding r .
    qed
  qed
qed



text \<open>
  Claim C10. In a dry run no call of the run is mutating: nothing is uploaded, deleted,
  stacked or added to an album on the server, and no local file is removed. The calls that
  remain are the listing of the albums and the closing of the local files.
\<close>

theorem Run_dry_run_no_mutation:
  assumes "DryRun app"
  shows "\<exists>xs. effects (snd (Run e app browse ctx)) = effects app @ xs \<and>
           list_all (\<lambda>x. \<not> mutating x) xs"
  using Run_trace [of e app browse ctx] assms by (auto simp: list_all_iff)

theorem Run_dry_run_no_mutation_witness:
  "DryRun (appS\<lparr>DryRun := True\<rparr>)
   \<and> effects (snd (Run envS (appS\<lparr>DryRun := True\<rparr>) (Inr [la0]) None))
       = effects (appS\<lparr>DryRun := True\<rparr>) @ [Close la0, GetAllAlbums]
   \<and> list_all (\<lambda>x. \<not> mutating x) [Close la0, GetAllAlbums]"
proof -
  have d: "DryRun (appS\<lparr>DryRun := True\<rparr>)" by simp
  have ev: "effects (snd (Run envS (appS\<lparr>DryRun := True\<rparr>) (Inr [la0]) None))
      = [Close la0, GetAllAlbums]"
    by code_simp
  have e0: "effects (appS\<lparr>DryRun := True\<rparr>) = []"
    by (simp add: appS_def app0_def)
  from Run_dry_run_no_mutation [OF d, of envS "Inr [la0]" None] obtain xs where
    "effects (snd (Run envS (appS\<lparr>DryRun := True\<rparr>) (Inr [la0]) None))
       = effects (appS\<lparr>DryRun := True\<rparr>) @ xs" "list_all (\<lambda>x. \<not> mutating x) xs"
    by blast
  with ev e0 have "list_all (\<lambda>x. \<not> mutating x) [Close la0, GetAllAlbums]" by simp
  with d ev e0 show ?thesis by simp
qed

section \<open>Album reconciliation stops at the first failure\<close>





text \<open>
  A whole run in which the update of the album fails: the run goes on with the remote and
  the local deletion and returns no error.
\<close>

lemma Run_continues_after_album_failure:
  "fst (Run envV appS (Inr [la0]) None) = None
   \<and> effects (snd (Run envV appS (Inr [la0]) None))
       = [AssetUpload la0, Close la0,
          UpdateAssets [''new-IMG_0001.JPG''] False False False ''new-IMG_0001.JPG'',
          GetAllAlbums, AddAssetToAlbum ''album-V'' [''new-IMG_0001.JPG''],
          DeleteAssets [''remote-1''] False, Remove la0]"
  by code_simp

end
